theory Spec2Isabelle
  imports Main
begin

section \<open>The superhero network: data\<close>

text \<open>
  The script \<^verbatim>\<open>app/superhero_network.py\<close> keeps two tables. A row of
  \<^verbatim>\<open>superheroes.csv\<close> has the columns \<^verbatim>\<open>id\<close>, \<^verbatim>\<open>name\<close> and \<^verbatim>\<open>created_at\<close>; a row of
  \<^verbatim>\<open>links.csv\<close> has the columns \<^verbatim>\<open>source\<close> and \<^verbatim>\<open>target\<close>. A data frame is the list of its
  rows, in file order. The column \<^verbatim>\<open>id\<close> is called \<open>hero_id\<close> here (the name the script gives
  to an id in \<^verbatim>\<open>basic_stats\<close>), since \<open>id\<close> is the identity function of HOL.

  A \<^verbatim>\<open>datetime.date\<close> is its proleptic Gregorian ordinal (\<^verbatim>\<open>date.toordinal()\<close>), between 1
  and \<^verbatim>\<open>date.max.toordinal()\<close> = 3652059.
\<close>

type_synonym date = int

record node =
  hero_id :: int
  name :: string
  created_at :: date

record link =
  source :: int
  target :: int

text \<open>
  The ways a call ends without its result. \<open>OverflowError\<close>, \<open>IndexError\<close> and \<open>TypeError\<close>
  are the Python exceptions of that name, which nothing in the script catches.
  \<open>NodeNotFound\<close> is the early return of \<^verbatim>\<open>add_connection\<close> after it has printed
  ``One or both superheroes not found.''
\<close>

datatype error = OverflowError | IndexError | TypeError | NodeNotFound

section \<open>The library calls the script makes\<close>

text \<open>
  \<^verbatim>\<open>Series.unique()\<close>: the distinct values, each at the place of its first appearance.
  \<^verbatim>\<open>Series.nunique()\<close> is their number.
\<close>

definition seen_add :: "'a \<Rightarrow> 'a list \<Rightarrow> 'a list" where
  "seen_add x seen = (if x \<in> set seen then seen else seen @ [x])"

definition unique :: "'a list \<Rightarrow> 'a list" where
  "unique xs = fold seen_add xs []"

definition nunique :: "'a list \<Rightarrow> nat" where
  "nunique xs = length (unique xs)"

text \<open>
  \<^verbatim>\<open>collections.Counter(xs)\<close>: a dictionary from each element of \<open>xs\<close> to the number of its
  occurrences. A dictionary keeps its keys in the order they were first inserted, and
  \<^verbatim>\<open>most_common\<close> depends on that order, so the counter is an association list: a new key goes
  to the end, a known key has its count raised in place. Looking up a key that is absent
  gives 0.
\<close>

fun counter_add :: "'a \<Rightarrow> ('a \<times> nat) list \<Rightarrow> ('a \<times> nat) list" where
  "counter_add x [] = [(x, 1)]"
| "counter_add x ((k, c) # kcs) =
     (if k = x then (k, c + 1) # kcs else (k, c) # counter_add x kcs)"

definition Counter :: "'a list \<Rightarrow> ('a \<times> nat) list" where
  "Counter xs = fold counter_add xs []"

definition count_of :: "('a \<times> nat) list \<Rightarrow> 'a \<Rightarrow> nat" where
  "count_of kcs k = (case map_of kcs k of None \<Rightarrow> 0 | Some c \<Rightarrow> c)"

text \<open>
  \<^verbatim>\<open>Counter.most_common(n)\<close> is \<^verbatim>\<open>heapq.nlargest(n, self.items(), key=itemgetter(1))\<close>, which is
  \<^verbatim>\<open>sorted(self.items(), key=itemgetter(1), reverse=True)[:n]\<close>. Python's sort is stable, also
  with \<^verbatim>\<open>reverse=True\<close>: items of equal count keep the order they have in the dictionary. That
  is the stable sort by the negated count.
\<close>

definition most_common :: "nat \<Rightarrow> ('a \<times> nat) list \<Rightarrow> ('a \<times> nat) list" where
  "most_common n kcs = take n (sort_key (\<lambda>kc. - int (snd kc)) kcs)"

text \<open>
  \<^verbatim>\<open>d - timedelta(days=k)\<close> on a \<^verbatim>\<open>datetime.date\<close>: the date \<open>k\<close> days earlier, and
  \<^verbatim>\<open>OverflowError\<close> when that is not a date.
\<close>

definition date_minus_days :: "date \<Rightarrow> int \<Rightarrow> error + date" where
  "date_minus_days d k =
     (let ordinal = d - k
      in if 0 < ordinal \<and> ordinal \<le> 3652059 then Inr ordinal else Inl OverflowError)"

text \<open>
  \<^verbatim>\<open>values[0]\<close> on the array of a selection: its first element, and \<^verbatim>\<open>IndexError\<close> when the
  selection is empty.
\<close>

definition values_0 :: "'a list \<Rightarrow> error + 'a" where
  "values_0 xs = (case xs of [] \<Rightarrow> Inl IndexError | x # _ \<Rightarrow> Inr x)"

text \<open>
  \<^verbatim>\<open>int(s)\<close> on a \<^verbatim>\<open>Series\<close>: the value of a series of exactly one element, and
  \<^verbatim>\<open>TypeError\<close> (``cannot convert the series to <class 'int'>'') for any other length.
\<close>

definition int_of_series :: "int list \<Rightarrow> error + int" where
  "int_of_series s = (case s of [x] \<Rightarrow> Inr x | _ \<Rightarrow> Inl TypeError)"

text \<open>
  \<^verbatim>\<open>Series.max()\<close> on the \<^verbatim>\<open>id\<close> column: its largest value, and \<^verbatim>\<open>NaN\<close> for a column without
  rows. The column holds 64-bit integers, and adding to a 64-bit integer wraps around;
  \<^verbatim>\<open>NaN + 1\<close> is \<^verbatim>\<open>NaN\<close>.
\<close>

datatype cell = IntVal int | NaN

definition series_max :: "int list \<Rightarrow> cell" where
  "series_max xs = (case xs of [] \<Rightarrow> NaN | x # ys \<Rightarrow> IntVal (fold max ys x))"

definition wrap_int64 :: "int \<Rightarrow> int" where
  "wrap_int64 x = (x + 2 ^ 63) mod 2 ^ 64 - 2 ^ 63"

fun cell_plus :: "cell \<Rightarrow> int \<Rightarrow> cell" where
  "cell_plus (IntVal i) k = IntVal (wrap_int64 (i + k))"
| "cell_plus NaN k = NaN"

section \<open>basic_stats\<close>

text \<open>
  \<^verbatim>\<open>basic_stats(superheroes, links)\<close> prints four things: the number of distinct ids, the
  number of link rows, the heroes created since three days before today, and the three
  most connected heroes by name. \<open>today\<close> is \<^verbatim>\<open>datetime.today().date()\<close>.
\<close>

definition total_superheroes :: "node list \<Rightarrow> nat" where
  "total_superheroes superheroes = nunique (map hero_id superheroes)"

definition total_connections :: "link list \<Rightarrow> nat" where
  "total_connections links = length links"

definition recent_heroes :: "node list \<Rightarrow> date \<Rightarrow> error + node list" where
  "recent_heroes superheroes today =
     (case date_minus_days today 3 of
        Inl e \<Rightarrow> Inl e
      | Inr cutoff \<Rightarrow> Inr (filter (\<lambda>h. cutoff \<le> created_at h) superheroes))"

text \<open>
  \<^verbatim>\<open>links['source'].tolist() + links['target'].tolist()\<close>: the whole source column, followed
  by the whole target column.
\<close>

definition endpoints :: "link list \<Rightarrow> int list" where
  "endpoints links = map source links @ map target links"

definition connection_counts :: "link list \<Rightarrow> (int \<times> nat) list" where
  "connection_counts links = Counter (endpoints links)"

definition degree :: "link list \<Rightarrow> int \<Rightarrow> nat" where
  "degree links h = count_of (connection_counts links) h"

text \<open>
  The script asks for the three most common; \<open>top_k_by_degree\<close> is the same call with
  any number.
\<close>

definition top_k_by_degree :: "nat \<Rightarrow> link list \<Rightarrow> (int \<times> nat) list" where
  "top_k_by_degree k links = most_common k (connection_counts links)"

definition top_3 :: "link list \<Rightarrow> (int \<times> nat) list" where
  "top_3 links = top_k_by_degree 3 links"

text \<open>
  The loop over \<open>top_3\<close>: the name of the first row with the ranked id, taken with
  \<^verbatim>\<open>values[0]\<close>, so the loop stops with \<^verbatim>\<open>IndexError\<close> at the first ranked id that no row has.
\<close>

definition name_of_id :: "node list \<Rightarrow> int \<Rightarrow> error + string" where
  "name_of_id superheroes h = values_0 (map name (filter (\<lambda>r. hero_id r = h) superheroes))"

fun top_connected :: "node list \<Rightarrow> (int \<times> nat) list \<Rightarrow> error + (string \<times> nat) list" where
  "top_connected superheroes [] = Inr []"
| "top_connected superheroes ((h, c) # rest) =
     (case name_of_id superheroes h of
        Inl e \<Rightarrow> Inl e
      | Inr nm \<Rightarrow>
          (case top_connected superheroes rest of
             Inl e \<Rightarrow> Inl e
           | Inr out \<Rightarrow> Inr ((nm, c) # out)))"

record stats =
  n_superheroes :: nat
  n_connections :: nat
  recent :: "node list"
  top :: "(string \<times> nat) list"

definition basic_stats :: "node list \<Rightarrow> link list \<Rightarrow> date \<Rightarrow> error + stats" where
  "basic_stats superheroes links today =
     (case recent_heroes superheroes today of
        Inl e \<Rightarrow> Inl e
      | Inr rs \<Rightarrow>
          (case top_connected superheroes (top_3 links) of
             Inl e \<Rightarrow> Inl e
           | Inr tops \<Rightarrow>
               Inr \<lparr>n_superheroes = total_superheroes superheroes,
                    n_connections = total_connections links,
                    recent = rs, top = tops\<rparr>))"

section \<open>analyze_dataiskole\<close>

text \<open>
  The friends of an id: the targets of the links it is the source of, followed by the
  sources of the links it is the target of, made unique.
\<close>

definition friend_ids :: "link list \<Rightarrow> int \<Rightarrow> int list" where
  "friend_ids links h =
     unique (map target (filter (\<lambda>l. source l = h) links) @
             map source (filter (\<lambda>l. target l = h) links))"

text \<open>
  \<^verbatim>\<open>superheroes[superheroes['id'].isin(friend_ids)]['name'].tolist()\<close>: the names of the rows
  whose id is one of the friends, in the order of the rows.
\<close>

definition friend_names :: "node list \<Rightarrow> int list \<Rightarrow> string list" where
  "friend_names superheroes ids = map name (filter (\<lambda>r. hero_id r \<in> set ids) superheroes)"

datatype report = NotInList | NoFriends date | Friends date "string list"

text \<open>
  The script looks for the name \<^verbatim>\<open>'dataiskole'\<close>; \<open>analyze_hero\<close> is its body for any name.
\<close>

definition analyze_hero :: "string \<Rightarrow> node list \<Rightarrow> link list \<Rightarrow> report" where
  "analyze_hero who superheroes links =
     (case filter (\<lambda>r. name r = who) superheroes of
        [] \<Rightarrow> NotInList
      | row # _ \<Rightarrow>
          (let ids = friend_ids links (hero_id row)
           in if length ids = 0 then NoFriends (created_at row)
              else Friends (created_at row) (friend_names superheroes ids)))"

definition analyze_dataiskole :: "node list \<Rightarrow> link list \<Rightarrow> report" where
  "analyze_dataiskole superheroes links = analyze_hero ''dataiskole'' superheroes links"

section \<open>add_superhero and add_connection\<close>

text \<open>
  \<^verbatim>\<open>add_superhero\<close> reads the table, computes the new id, and writes the table back with one
  more row. The result is the id it prints and the row it appends; the rows before it are
  written back as they were read.
\<close>

record new_row =
  new_id :: cell
  new_name :: string
  new_created_at :: date

definition next_id :: "node list \<Rightarrow> cell" where
  "next_id superheroes = cell_plus (series_max (map hero_id superheroes)) 1"

definition add_superhero :: "node list \<Rightarrow> string \<Rightarrow> date \<Rightarrow> cell \<times> new_row" where
  "add_superhero superheroes nm today =
     (let i = next_id superheroes
      in (i, \<lparr>new_id = i, new_name = nm, new_created_at = today\<rparr>))"

text \<open>
  \<^verbatim>\<open>add_connection\<close> reads the heroes, selects the ids of the rows with each name, and returns
  early when a selection is empty. Otherwise it converts each selection with \<^verbatim>\<open>int\<close>, reads
  the links, and writes them back with one more row. The result pairs the way the call ends
  with the rows of \<^verbatim>\<open>links.csv\<close> after it.
\<close>

definition ids_named :: "node list \<Rightarrow> string \<Rightarrow> int list" where
  "ids_named superheroes nm = map hero_id (filter (\<lambda>r. name r = nm) superheroes)"

definition add_connection ::
  "node list \<Rightarrow> link list \<Rightarrow> string \<Rightarrow> string \<Rightarrow> (error + unit) \<times> link list" where
  "add_connection superheroes links name1 name2 =
     (let id1 = ids_named superheroes name1; id2 = ids_named superheroes name2
      in if id1 = [] \<or> id2 = [] then (Inl NodeNotFound, links)
         else (case int_of_series id1 of
                 Inl e \<Rightarrow> (Inl e, links)
               | Inr s \<Rightarrow>
                   (case int_of_series id2 of
                      Inl e \<Rightarrow> (Inl e, links)
                    | Inr t \<Rightarrow> (Inr (), links @ [\<lparr>source = s, target = t\<rparr>]))))"

section \<open>Notions the properties are stated with\<close>

text \<open>
  The place where a value first occurs in a list (the length of the list's prefix before
  it; the length of the whole list when it does not occur).
\<close>

fun first_pos :: "'a \<Rightarrow> 'a list \<Rightarrow> nat" where
  "first_pos x [] = 0"
| "first_pos x (y # ys) = (if x = y then 0 else Suc (first_pos x ys))"

text \<open>
  Two ranked entries respect the order of a sequence of ids when, if their counts are equal,
  the id of the first occurs in the sequence before the id of the second.
\<close>

definition tie_before :: "int list \<Rightarrow> int \<times> nat \<Rightarrow> int \<times> nat \<Rightarrow> bool" where
  "tie_before seq a b = (snd a = snd b \<longrightarrow> first_pos (fst a) seq < first_pos (fst b) seq)"

text \<open>
  The specification's reading of the scan: the links one by one in file order, the source
  of each link before its target.
\<close>

definition edge_scan :: "link list \<Rightarrow> int list" where
  "edge_scan links = concat (map (\<lambda>l. [source l, target l]) links)"

text \<open>
  The specification's reading of the degree: the links in which an id appears, as source
  or as target. The loops at an id are the links from it to itself.
\<close>

definition incident_edges :: "link list \<Rightarrow> int \<Rightarrow> link list" where
  "incident_edges links h = filter (\<lambda>l. source l = h \<or> target l = h) links"

definition self_loops :: "link list \<Rightarrow> int \<Rightarrow> link list" where
  "self_loops links h = filter (\<lambda>l. source l = h \<and> target l = h) links"

section \<open>Facts about the library calls\<close>

lemma unique_snoc: "unique (xs @ [x]) = seen_add x (unique xs)"
  by (simp add: unique_def)

lemma set_unique: "set (unique xs) = set xs"
  by (induction xs rule: rev_induct) (auto simp: unique_snoc seen_add_def unique_def)

lemma distinct_unique: "distinct (unique xs)"
  by (induction xs rule: rev_induct) (auto simp: unique_snoc seen_add_def unique_def)

lemma first_pos_less: "a \<in> set xs \<Longrightarrow> first_pos a xs < length xs"
  by (induction xs) auto

lemma first_pos_append_in: "a \<in> set xs \<Longrightarrow> first_pos a (xs @ ys) = first_pos a xs"
  by (induction xs) auto

lemma first_pos_append_notin:
  "a \<notin> set xs \<Longrightarrow> first_pos a (xs @ ys) = length xs + first_pos a ys"
  by (induction xs) auto

text \<open>The values of \<open>unique xs\<close> stand in the order of their first occurrence in \<open>xs\<close>.\<close>

lemma unique_first_pos:
  "sorted_wrt (\<lambda>a b. first_pos a xs < first_pos b xs) (unique xs)"
proof (induction xs rule: rev_induct)
  case Nil
  then show ?case by (simp add: unique_def)
next
  case (snoc x xs)
  have old: "sorted_wrt (\<lambda>a b. first_pos a (xs @ [x]) < first_pos b (xs @ [x])) (unique xs)"
    using snoc
    by (rule sorted_wrt_mono_rel [rotated]) (simp add: set_unique first_pos_append_in)
  show ?case
  proof (cases "x \<in> set xs")
    case True
    with old show ?thesis by (simp add: unique_snoc seen_add_def set_unique)
  next
    case False
    have "first_pos a (xs @ [x]) < first_pos x (xs @ [x])" if "a \<in> set xs" for a
      using that False by (simp add: first_pos_append_in first_pos_append_notin first_pos_less)
    with old False show ?thesis
      by (simp add: unique_snoc seen_add_def set_unique sorted_wrt_append)
  qed
qed

text \<open>The counter: its keys are the unique elements, its counts the occurrences.\<close>

lemma Counter_snoc: "Counter (xs @ [x]) = counter_add x (Counter xs)"
  by (simp add: Counter_def)

lemma count_of_counter_add:
  "count_of (counter_add x kcs) k = (if k = x then count_of kcs k + 1 else count_of kcs k)"
  by (induction kcs) (auto simp: count_of_def)

lemma count_of_Counter: "count_of (Counter xs) k = count_list xs k"
proof (induction xs arbitrary: k rule: rev_induct)
  case Nil
  then show ?case by (simp add: Counter_def count_of_def)
next
  case (snoc x xs)
  then show ?case by (simp add: Counter_snoc count_of_counter_add)
qed

lemma keys_counter_add: "map fst (counter_add x kcs) = seen_add x (map fst kcs)"
  by (induction kcs) (force simp: seen_add_def)+

lemma keys_Counter: "map fst (Counter xs) = unique xs"
  by (induction xs rule: rev_induct)
     (simp_all add: Counter_snoc unique_snoc keys_counter_add, simp add: Counter_def unique_def)

lemma count_of_key:
  "distinct (map fst kcs) \<Longrightarrow> p \<in> set kcs \<Longrightarrow> snd p = count_of kcs (fst p)"
  by (cases p) (simp add: count_of_def)

text \<open>
  A stable sort keeps, among the elements of equal key, any order the list had before.
\<close>

lemma sorted_wrt_classes:
  "(\<And>c. sorted_wrt R (filter (\<lambda>y. f y = c) xs)) \<Longrightarrow>
   sorted_wrt (\<lambda>a b. f a = f b \<longrightarrow> R a b) xs"
proof (induction xs)
  case Nil
  then show ?case by simp
next
  case (Cons x xs)
  have "sorted_wrt R (filter (\<lambda>y. f y = c) xs)" for c
    using Cons.prems [of c] by (simp split: if_splits)
  then have tl: "sorted_wrt (\<lambda>a b. f a = f b \<longrightarrow> R a b) xs"
    by (rule Cons.IH)
  have "R x y" if "y \<in> set xs" "f x = f y" for y
    using Cons.prems [of "f x"] that by simp
  with tl show ?case by simp
qed

lemma stable_sort_ties:
  assumes "sorted_wrt R xs"
  shows "sorted_wrt (\<lambda>a b. f a = f b \<longrightarrow> R a b) (sort_key f xs)"
proof (rule sorted_wrt_classes)
  fix c
  have "sorted_wrt R (filter (\<lambda>y. f y = c) xs)"
    using assms by (rule sorted_wrt_filter)
  then show "sorted_wrt R (filter (\<lambda>y. f y = c) (sort_key f xs))"
    by (simp add: sort_key_stable)
qed

lemma most_common_descending: "sorted_wrt (\<lambda>a b. snd b \<le> snd a) (most_common n kcs)"
proof -
  have "sorted (map (\<lambda>kc. - int (snd kc)) (sort_key (\<lambda>kc. - int (snd kc)) kcs))"
    by (rule sorted_sort_key)
  then have "sorted_wrt (\<lambda>a b. snd b \<le> snd a) (sort_key (\<lambda>kc. - int (snd kc)) kcs)"
    by (simp add: sorted_map)
  then show ?thesis
    unfolding most_common_def by (rule sorted_wrt_take)
qed

lemma most_common_ties:
  assumes "sorted_wrt (\<lambda>a b. first_pos (fst a) seq < first_pos (fst b) seq) kcs"
  shows "sorted_wrt (tie_before seq) (most_common n kcs)"
proof -
  have "sorted_wrt
          (\<lambda>a b. - int (snd a) = - int (snd b) \<longrightarrow> first_pos (fst a) seq < first_pos (fst b) seq)
          (sort_key (\<lambda>kc. - int (snd kc)) kcs)"
    using assms by (rule stable_sort_ties)
  then have "sorted_wrt (tie_before seq) (sort_key (\<lambda>kc. - int (snd kc)) kcs)"
    by (rule sorted_wrt_mono_rel [rotated]) (simp add: tie_before_def)
  then show ?thesis
    unfolding most_common_def by (rule sorted_wrt_take)
qed

lemma set_most_common: "set (most_common n kcs) \<subseteq> set kcs"
  unfolding most_common_def
  using set_take_subset [of n "sort_key (\<lambda>kc. - int (snd kc)) kcs"] by simp

lemma count_list_map_filter: "count_list (map f xs) k = length (filter (\<lambda>x. f x = k) xs)"
  by (induction xs) auto

lemma length_filter_or:
  "length (filter P xs) + length (filter Q xs) =
   length (filter (\<lambda>x. P x \<or> Q x) xs) + length (filter (\<lambda>x. P x \<and> Q x) xs)"
  by (induction xs) auto

lemma series_max_Max: "xs \<noteq> [] \<Longrightarrow> series_max xs = IntVal (Max (set xs))"
  by (cases xs) (simp_all add: series_max_def Max.set_eq_fold [symmetric])

lemma wrap_int64_id: "- (2 ^ 63) \<le> x \<Longrightarrow> x < 2 ^ 63 \<Longrightarrow> wrap_int64 x = x"
  by (simp add: wrap_int64_def)

section \<open>The ranking by degree\<close>

text \<open>
  C1, as the code has it. For every table of links and every \<open>k\<close>, the ranking is in
  descending order of count, every entry pairs an id with its degree, and of two entries
  with equal count the one comes first whose id occurs first in the source column followed
  by the target column (all sources are seen before any target).
\<close>

theorem top_k_by_degree_order:
  "sorted_wrt (\<lambda>a b. snd b \<le> snd a) (top_k_by_degree k links)
   \<and> sorted_wrt (tie_before (endpoints links)) (top_k_by_degree k links)
   \<and> (\<forall>p\<in>set (top_k_by_degree k links). snd p = degree links (fst p))"
proof -
  let ?cs = "connection_counts links"
  have keys: "map fst ?cs = unique (endpoints links)"
    by (simp add: connection_counts_def keys_Counter)
  have "sorted_wrt (\<lambda>a b. first_pos a (endpoints links) < first_pos b (endpoints links))
          (map fst ?cs)"
    unfolding keys by (rule unique_first_pos)
  then have "sorted_wrt
      (\<lambda>a b. first_pos (fst a) (endpoints links) < first_pos (fst b) (endpoints links)) ?cs"
    by (simp add: sorted_wrt_map)
  then have ties: "sorted_wrt (tie_before (endpoints links)) (top_k_by_degree k links)"
    unfolding top_k_by_degree_def by (rule most_common_ties)
  have desc: "sorted_wrt (\<lambda>a b. snd b \<le> snd a) (top_k_by_degree k links)"
    unfolding top_k_by_degree_def by (rule most_common_descending)
  have "distinct (map fst ?cs)"
    unfolding keys by (rule distinct_unique)
  then have "snd p = degree links (fst p)" if "p \<in> set (top_k_by_degree k links)" for p
    using that set_most_common [of k ?cs]
    by (auto simp: top_k_by_degree_def degree_def intro: count_of_key)
  with ties desc show ?thesis by blast
qed

text \<open>
  The ranking of the links (1, 2), (3, 1): the ids 3 and 2 both have degree 1, and 3 comes
  first, since it is in the source column.
\<close>

theorem top_k_by_degree_order_witness:
  "top_k_by_degree 3 [\<lparr>source = 1, target = 2\<rparr>, \<lparr>source = 3, target = 1\<rparr>] = [(1, 2), (3, 1), (2, 1)]
   \<and> first_pos 3 (endpoints [\<lparr>source = 1, target = 2\<rparr>, \<lparr>source = 3, target = 1\<rparr>]) < first_pos 2 (endpoints [\<lparr>source = 1, target = 2\<rparr>, \<lparr>source = 3, target = 1\<rparr>])
   \<and> degree [\<lparr>source = 1, target = 2\<rparr>, \<lparr>source = 3, target = 1\<rparr>] 3 = 1"
  using top_k_by_degree_order [of 3 "[\<lparr>source = 1, target = 2\<rparr>, \<lparr>source = 3, target = 1\<rparr>]"]
  by (simp add: top_k_by_degree_def most_common_def connection_counts_def Counter_def
      endpoints_def tie_before_def degree_def count_of_def)

text \<open>
  Scanned link by link, the same table shows the id 2 (in the first link) before the id 3
  (in the second), so the ranking does not follow the order of that scan.
\<close>

theorem top_k_by_degree_edge_scan_counterexample:
  "top_k_by_degree 3 [\<lparr>source = 1, target = 2\<rparr>, \<lparr>source = 3, target = 1\<rparr>] = [(1, 2), (3, 1), (2, 1)]
   \<and> \<not> sorted_wrt (tie_before (edge_scan [\<lparr>source = 1, target = 2\<rparr>, \<lparr>source = 3, target = 1\<rparr>])) (top_k_by_degree 3 [\<lparr>source = 1, target = 2\<rparr>, \<lparr>source = 3, target = 1\<rparr>])"
  by (simp add: top_k_by_degree_def most_common_def connection_counts_def Counter_def
      endpoints_def tie_before_def edge_scan_def)

section \<open>The degree\<close>

text \<open>
  C2, as the code has it. For every table of links and every id, the degree is the number
  of links with that source plus the number of links with that target: the number of links
  in which the id appears, plus once more each loop at the id. A loop counts 2.
\<close>

theorem degree_counts_endpoints:
  "degree links h =
     length (filter (\<lambda>l. source l = h) links) + length (filter (\<lambda>l. target l = h) links)
   \<and> degree links h = length (incident_edges links h) + length (self_loops links h)"
proof -
  have a: "degree links h =
     length (filter (\<lambda>l. source l = h) links) + length (filter (\<lambda>l. target l = h) links)"
    by (simp add: degree_def connection_counts_def endpoints_def count_of_Counter
        count_list_map_filter)
  show ?thesis
    unfolding incident_edges_def self_loops_def
    using a length_filter_or [of "\<lambda>l. source l = h" links "\<lambda>l. target l = h"] by simp
qed

text \<open>One loop at the id 1 is one link in which 1 appears, and gives 1 the degree 2.\<close>

theorem degree_self_loop_counterexample:
  "degree [\<lparr>source = 1, target = 1\<rparr>] 1 = 2 \<and> length (incident_edges [\<lparr>source = 1, target = 1\<rparr>] 1) = 1"
  by (simp add: degree_def connection_counts_def endpoints_def Counter_def count_of_def
      incident_edges_def)

section \<open>Adding a connection\<close>

text \<open>
  C3. For every table of heroes and of links, when one of the two names is the name of no
  hero, \<^verbatim>\<open>add_connection\<close> ends as \<open>NodeNotFound\<close> and the links are what they were.
\<close>

theorem add_edge_unresolved_name:
  assumes "(\<forall>r\<in>set superheroes. name r \<noteq> name1) \<or> (\<forall>r\<in>set superheroes. name r \<noteq> name2)"
  shows "add_connection superheroes links name1 name2 = (Inl NodeNotFound, links)"
proof -
  have "ids_named superheroes name1 = [] \<or> ids_named superheroes name2 = []"
    using assms by (auto simp: ids_named_def filter_empty_conv)
  then show ?thesis
    by (auto simp: add_connection_def Let_def)
qed

theorem add_edge_unresolved_name_witness:
  "add_connection [\<lparr>hero_id = 1, name = ''a'', created_at = 10\<rparr>] [\<lparr>source = 1, target = 1\<rparr>] ''a'' ''zz''
     = (Inl NodeNotFound, [\<lparr>source = 1, target = 1\<rparr>])"
proof -
  have h: "(\<forall>r\<in>set [\<lparr>hero_id = 1, name = ''a'', created_at = 10\<rparr>]. name r \<noteq> ''a'') \<or>
           (\<forall>r\<in>set [\<lparr>hero_id = 1, name = ''a'', created_at = 10\<rparr>]. name r \<noteq> ''zz'')"
    by simp
  show ?thesis
    using add_edge_unresolved_name [OF h] by simp
qed

text \<open>When each name selects exactly one row, the link of the two ids is appended.\<close>

lemma add_edge_unique_names:
  "ids_named superheroes name1 = [s] \<Longrightarrow> ids_named superheroes name2 = [t] \<Longrightarrow>
   add_connection superheroes links name1 name2 = (Inr (), links @ [\<lparr>source = s, target = t\<rparr>])"
  by (simp add: add_connection_def int_of_series_def)

text \<open>
  C9. With the heroes (1, a), (2, a), (3, b), the name a matches two rows. The claim has
  \<^verbatim>\<open>add_connection\<close> take the id 1 of the first and append the link (1, 3); the code converts
  the selection of two ids with \<^verbatim>\<open>int\<close>, which raises \<^verbatim>\<open>TypeError\<close>, and no link is written.
\<close>

theorem add_edge_duplicate_name_raises:
  "add_connection
     [\<lparr>hero_id = 1, name = ''a'', created_at = 10\<rparr>, \<lparr>hero_id = 2, name = ''a'', created_at = 11\<rparr>,
      \<lparr>hero_id = 3, name = ''b'', created_at = 12\<rparr>] [] ''a'' ''b'' = (Inl TypeError, [])"
  by (simp add: add_connection_def ids_named_def int_of_series_def)

section \<open>Adding a hero\<close>

text \<open>
  C4, as the code has it. For every table of heroes that is not empty, with ids that are
  64-bit integers below the largest one, \<^verbatim>\<open>add_superhero\<close> gives the new hero the largest id
  of the table plus 1. The code has no default for the empty table: the id it gives there
  is not 1.
\<close>

theorem add_node_next_id:
  assumes "superheroes \<noteq> []"
    and "\<forall>r\<in>set superheroes. - (2 ^ 63) \<le> hero_id r \<and> hero_id r < 2 ^ 63 - 1"
  shows "fst (add_superhero superheroes nm today) = IntVal (Max (hero_id ` set superheroes) + 1)
       \<and> new_id (snd (add_superhero superheroes nm today))
           = IntVal (Max (hero_id ` set superheroes) + 1)
       \<and> fst (add_superhero [] nm today) \<noteq> IntVal 1"
proof -
  let ?m = "Max (hero_id ` set superheroes)"
  have "?m \<in> hero_id ` set superheroes"
    using assms(1) by (intro Max_in) auto
  then obtain r where "r \<in> set superheroes" "hero_id r = ?m" by auto
  with assms(2) have "- (2 ^ 63) \<le> ?m" "?m < 2 ^ 63 - 1" by auto
  then have "wrap_int64 (?m + 1) = ?m + 1"
    by (intro wrap_int64_id) auto
  moreover have "series_max (map hero_id superheroes) = IntVal ?m"
    using assms(1) by (simp add: series_max_Max)
  ultimately have "next_id superheroes = IntVal (?m + 1)"
    by (simp add: next_id_def)
  moreover have "next_id [] = NaN"
    by (simp add: next_id_def series_max_def)
  ultimately show ?thesis
    by (simp add: add_superhero_def)
qed

theorem add_node_next_id_witness:
  "fst (add_superhero
          [\<lparr>hero_id = 4, name = ''a'', created_at = 10\<rparr>, \<lparr>hero_id = 9, name = ''b'', created_at = 10\<rparr>,
           \<lparr>hero_id = 2, name = ''c'', created_at = 10\<rparr>] ''nova'' 739000) = IntVal 10"
proof -
  have h1: "[\<lparr>hero_id = 4, name = ''a'', created_at = 10\<rparr>, \<lparr>hero_id = 9, name = ''b'', created_at = 10\<rparr>,
             \<lparr>hero_id = 2, name = ''c'', created_at = 10\<rparr>] \<noteq> []"
    by simp
  have h2: "\<forall>r\<in>set [\<lparr>hero_id = 4, name = ''a'', created_at = 10\<rparr>,
                    \<lparr>hero_id = 9, name = ''b'', created_at = 10\<rparr>,
                    \<lparr>hero_id = 2, name = ''c'', created_at = 10\<rparr>].
              - (2 ^ 63) \<le> hero_id r \<and> hero_id r < 2 ^ 63 - 1"
    by simp
  show ?thesis
    using add_node_next_id [OF h1 h2, of "''nova''" 739000] by simp
qed

text \<open>Added to the empty table, a hero does not get the id 1.\<close>

theorem add_node_empty_counterexample:
  "fst (add_superhero [] ''nova'' 739000) = NaN \<and> fst (add_superhero [] ''nova'' 739000) \<noteq> IntVal 1"
  by (simp add: add_superhero_def next_id_def series_max_def)

section \<open>Friends\<close>

text \<open>
  C5, as the code has it. For every table of links and every id, the friends of the id are
  the targets of the links it is the source of together with the sources of the links it is
  the target of. The id itself is not taken out: it is among its own friends exactly when
  the table has a loop at it.
\<close>

theorem neighbors_union:
  "set (friend_ids links h) =
     target ` {l \<in> set links. source l = h} \<union> source ` {l \<in> set links. target l = h}
   \<and> (h \<in> set (friend_ids links h)) = (\<lparr>source = h, target = h\<rparr> \<in> set links)"
proof -
  have a: "set (friend_ids links h) =
     target ` {l \<in> set links. source l = h} \<union> source ` {l \<in> set links. target l = h}"
    by (simp add: friend_ids_def set_unique)
  have "(h \<in> target ` {l \<in> set links. source l = h} \<union> source ` {l \<in> set links. target l = h})
      = (\<lparr>source = h, target = h\<rparr> \<in> set links)"
    by (auto simp: image_iff) (metis (full_types) link.surjective old.unit.exhaust)+
  with a show ?thesis by simp
qed

text \<open>With one loop at the id 1, the id 1 is its own friend.\<close>

theorem neighbors_self_loop_counterexample:
  "friend_ids [\<lparr>source = 1, target = 1\<rparr>] 1 = [1]"
  by (simp add: friend_ids_def unique_def seen_add_def)

text \<open>
  Names are looked up for the friends that have a row: dropping from the friends every id
  without a row changes no name in the list.
\<close>

lemma friend_names_present:
  "friend_names superheroes (filter (\<lambda>i. i \<in> hero_id ` set superheroes) ids)
     = friend_names superheroes ids"
  unfolding friend_names_def
  by (rule arg_cong [where f = "map name"], rule filter_cong) auto

text \<open>
  C10. For every table of heroes and of links and every name that some hero has, the
  report is made from the first row with that name, and no error is raised when a friend has
  no row: the names listed are those of the rows whose id is a friend that has a row, so a
  friend without a row adds nothing to the list.
\<close>

theorem neighbor_report_dangling:
  assumes "r0 \<in> set superheroes" and "name r0 = who"
  shows "\<exists>row. find (\<lambda>r. name r = who) superheroes = Some row \<and>
           analyze_hero who superheroes links =
             (if friend_ids links (hero_id row) = [] then NoFriends (created_at row)
              else Friends (created_at row)
                     (map name
                        (filter (\<lambda>r. hero_id r \<in> set (filter (\<lambda>i. i \<in> hero_id ` set superheroes)
                                                        (friend_ids links (hero_id row))))
                           superheroes)))"
proof -
  from assms have "filter (\<lambda>r. name r = who) superheroes \<noteq> []"
    by (auto simp: filter_empty_conv)
  then obtain row rest where f: "filter (\<lambda>r. name r = who) superheroes = row # rest"
    by (cases "filter (\<lambda>r. name r = who) superheroes") auto
  then have g: "find (\<lambda>r. name r = who) superheroes = Some row"
    by (induction superheroes) (auto split: if_splits)
  have "analyze_hero who superheroes links =
          (if friend_ids links (hero_id row) = [] then NoFriends (created_at row)
           else Friends (created_at row)
                  (friend_names superheroes (friend_ids links (hero_id row))))"
    using f by (simp add: analyze_hero_def Let_def)
  also have "friend_names superheroes (friend_ids links (hero_id row)) =
       friend_names superheroes
         (filter (\<lambda>i. i \<in> hero_id ` set superheroes) (friend_ids links (hero_id row)))"
    by (rule friend_names_present [symmetric])
  finally show ?thesis using g by (simp add: friend_names_def)
qed

text \<open>
  The hero a has the friends 7 and 2, in that order; no row has the id 7, and the report
  lists b alone.
\<close>

theorem neighbor_report_dangling_witness:
  "analyze_hero ''a''
     [\<lparr>hero_id = 1, name = ''a'', created_at = 10\<rparr>, \<lparr>hero_id = 2, name = ''b'', created_at = 11\<rparr>]
     [\<lparr>source = 1, target = 7\<rparr>, \<lparr>source = 2, target = 1\<rparr>] = Friends 10 [''b'']"
proof -
  have h1: "\<lparr>hero_id = 1, name = ''a'', created_at = 10\<rparr>
      \<in> set [\<lparr>hero_id = 1, name = ''a'', created_at = 10\<rparr>, \<lparr>hero_id = 2, name = ''b'', created_at = 11\<rparr>]"
    by simp
  have h2: "name \<lparr>hero_id = 1, name = ''a'', created_at = 10\<rparr> = ''a''"
    by simp
  show ?thesis
    using neighbor_report_dangling [OF h1 h2, of "[\<lparr>source = 1, target = 7\<rparr>, \<lparr>source = 2, target = 1\<rparr>]"]
    by (simp add: friend_ids_def unique_def seen_add_def)
qed

section \<open>Resolving the ranked ids\<close>

lemma name_of_id_missing:
  assumes "h \<notin> hero_id ` set superheroes"
  shows "name_of_id superheroes h = Inl IndexError"
proof -
  from assms have "filter (\<lambda>r. hero_id r = h) superheroes = []"
    by (auto simp: filter_empty_conv)
  then show ?thesis by (simp add: name_of_id_def values_0_def)
qed

lemma name_of_id_cases:
  "name_of_id superheroes h = Inl IndexError \<or> (\<exists>nm. name_of_id superheroes h = Inr nm)"
  by (simp add: name_of_id_def values_0_def split: list.splits)

lemma top_connected_missing:
  "(h, c) \<in> set ranked \<Longrightarrow> h \<notin> hero_id ` set superheroes \<Longrightarrow>
   top_connected superheroes ranked = Inl IndexError"
proof (induction ranked)
  case Nil
  then show ?case by simp
next
  case (Cons p ranked)
  obtain h' c' where p: "p = (h', c')" by (cases p)
  show ?case
  proof (cases "name_of_id superheroes h'")
    case (Inl e)
    with name_of_id_cases [of superheroes h'] have "e = IndexError" by auto
    with Inl p show ?thesis by simp
  next
    case (Inr nm)
    with name_of_id_missing [of h' superheroes] Cons.prems p have "(h, c) \<in> set ranked"
      by auto
    with Cons have "top_connected superheroes ranked = Inl IndexError" by simp
    with Inr p show ?thesis by simp
  qed
qed

text \<open>
  C6. For every table of heroes and of links, when one of the three ranked ids is the id
  of no hero, resolving the names ends in \<^verbatim>\<open>IndexError\<close>, and so does \<^verbatim>\<open>basic_stats\<close> (on a day
  that has a third day before it): no list of names is produced with that id left out. The
  error is another one than the report that a name was not found. The specification calls
  this failure of the code \<^verbatim>\<open>NameResolutionError\<close>.
\<close>

theorem top_connected_unresolved_id:
  assumes "(h, c) \<in> set (top_3 links)" and "h \<notin> hero_id ` set superheroes"
    and "3 < today" and "today \<le> 3652059"
  shows "top_connected superheroes (top_3 links) = Inl IndexError
       \<and> basic_stats superheroes links today = Inl IndexError
       \<and> IndexError \<noteq> NodeNotFound"
proof -
  have a: "top_connected superheroes (top_3 links) = Inl IndexError"
    using assms(1,2) by (rule top_connected_missing)
  have "\<exists>rs. recent_heroes superheroes today = Inr rs"
    using assms(3,4) by (simp add: recent_heroes_def date_minus_days_def)
  with a show ?thesis
    by (auto simp: basic_stats_def)
qed

theorem top_connected_unresolved_id_witness:
  "basic_stats [\<lparr>hero_id = 1, name = ''a'', created_at = 10\<rparr>] [\<lparr>source = 1, target = 2\<rparr>] 100
     = Inl IndexError"
proof -
  have h1: "(2, 1) \<in> set (top_3 [\<lparr>source = 1, target = 2\<rparr>])"
    by (simp add: top_3_def top_k_by_degree_def most_common_def connection_counts_def
        Counter_def endpoints_def)
  have h2: "2 \<notin> hero_id ` set [\<lparr>hero_id = 1, name = ''a'', created_at = 10\<rparr>]"
    by simp
  have h3: "(3::int) < 100" "(100::int) \<le> 3652059"
    by simp_all
  show ?thesis
    using top_connected_unresolved_id [OF h1 h2 h3] by simp
qed

section \<open>Recent heroes\<close>

text \<open>
  C7, as the code has it. For every table of heroes and every day \<open>today\<close> that has a
  third day before it, the recent heroes are exactly the rows created on or after that
  third day, in the order of the table. The day three days back is included; there is no
  bound above, so a row dated after \<open>today\<close> is included as well.
\<close>

theorem recent_nodes_since_cutoff:
  assumes "3 < today" and "today \<le> 3652059"
  shows "recent_heroes superheroes today
           = Inr (filter (\<lambda>r. today - 3 \<le> created_at r) superheroes)"
  using assms by (simp add: recent_heroes_def date_minus_days_def)

theorem recent_nodes_since_cutoff_witness:
  "recent_heroes
     [\<lparr>hero_id = 1, name = ''a'', created_at = 96\<rparr>, \<lparr>hero_id = 2, name = ''b'', created_at = 97\<rparr>,
      \<lparr>hero_id = 3, name = ''c'', created_at = 100\<rparr>] 100
   = Inr [\<lparr>hero_id = 2, name = ''b'', created_at = 97\<rparr>, \<lparr>hero_id = 3, name = ''c'', created_at = 100\<rparr>]"
proof -
  have h: "(3::int) < 100" "(100::int) \<le> 3652059"
    by simp_all
  show ?thesis
    using recent_nodes_since_cutoff [OF h,
        of "[\<lparr>hero_id = 1, name = ''a'', created_at = 96\<rparr>, \<lparr>hero_id = 2, name = ''b'', created_at = 97\<rparr>,
             \<lparr>hero_id = 3, name = ''c'', created_at = 100\<rparr>]"]
    by simp
qed

text \<open>On day 100, a row dated 101 lies outside the days 97 to 100 and is returned.\<close>

theorem recent_nodes_future_counterexample:
  "recent_heroes [\<lparr>hero_id = 1, name = ''a'', created_at = 101\<rparr>] 100
     = Inr [\<lparr>hero_id = 1, name = ''a'', created_at = 101\<rparr>]
   \<and> \<not> created_at \<lparr>hero_id = 1, name = ''a'', created_at = 101\<rparr> \<le> 100"
  by (simp add: recent_heroes_def date_minus_days_def)

section \<open>Counting heroes\<close>

text \<open>
  C8. For every table of heroes, also one with several rows of the same id, the number
  that \<^verbatim>\<open>basic_stats\<close> prints as the total is the number of distinct ids in the table, not the
  number of its rows.
\<close>

theorem count_nodes_distinct_ids:
  "total_superheroes superheroes = card (hero_id ` set superheroes)"
proof -
  have "length (unique (map hero_id superheroes)) = card (set (unique (map hero_id superheroes)))"
    using distinct_unique by (rule distinct_card [symmetric])
  then show ?thesis
    by (simp add: total_superheroes_def nunique_def set_unique)
qed

end
